theory Spec2Isabelle
  imports Main
begin

section \<open>Data model shared by the two table engines\<close>

text \<open>
  The repository holds two table components built on the same external row-model
  library: \<open>TanstackTable\<close> (the simple variant, declarative columns) and
  \<open>DataTable\<close> (the variant that can generate its columns). Both are React function
  components: their state lives in \<open>useState\<close> slots, their reactions are
  \<open>useEffect\<close> bodies, and what they show is the value the function returns.
  The embedding keeps that shape: a record per component state, one function per
  state setter, handler and effect body, and a function for the part of the returned
  markup the properties talk about.

  A JavaScript object used as a dictionary is a map from property names to values;
  \<open>{}\<close> is the empty map and \<open>{...o, [k]: v}\<close> is \<open>o(k \<mapsto> v)\<close>.
\<close>

datatype 'r cell_renderer = SkeletonCell | CellWithActions | Renderer 'r

text \<open>
  A column definition. Only the identifier and the cell renderer are read by the
  components; the record is extensible, so every other property of a caller's
  definition (header, accessor, flags) is carried along in the extension part.
\<close>

record 'r column_def =
  column_id :: string
  cell :: "'r cell_renderer"

text \<open>
  A row of the library's row model, as the body reads it: its visible cells and the
  two flags tested while rendering.
\<close>

record 'c rm_row =
  visibleCells :: "'c list"
  isSelected :: bool
  isExpanded :: bool

text \<open>
  The rows of the rendered table body: a data row (its selected flag and cells), the
  extra row under an expanded data row (its \<open>colSpan\<close>), and the placeholder row
  (its \<open>colSpan\<close> and text).
\<close>

datatype 'c body_row =
    TableRow bool "'c list"
  | SubComponentRow nat
  | NoResultsRow nat string

text \<open>\<open>Object.fromEntries\<close>: entries are stored in order, a later key overwrites.\<close>

definition fromEntries :: "('k \<times> 'v) list \<Rightarrow> ('k \<rightharpoonup> 'v)" where
  "fromEntries entries = fold (\<lambda>(k, v) obj. obj(k \<mapsto> v)) entries Map.empty"

section \<open>TanstackTable: the simple variant\<close>

text \<open>
  A caller-supplied callback is opaque. What the component can observe of a call is
  whether it returns or throws; what the caller can observe is that it was called, and
  with what. Calls are therefore logged, in order.
\<close>

datatype outcome = Returns | Throws

datatype error = CallbackThrew

text \<open>
  Row action descriptors by \<open>type\<close>: \<open>link {onClick}\<close>, and the two dialog types
  with \<open>onConfirm\<close> and the optional \<open>onCancel\<close> (their titles and labels are only
  handed to the dialog components and are left out).
\<close>

datatype 'row row_action =
    Link "'row \<Rightarrow> outcome"
  | ConfirmationDialog "'row \<Rightarrow> outcome" "('row \<Rightarrow> outcome) option"
  | CustomDialog "'row \<Rightarrow> outcome" "('row \<Rightarrow> outcome) option"

text \<open>The pending action \<open>{...action, row}\<close>.\<close>

record 'row pending_action =
  action :: "'row row_action"
  row :: "'row"

record 'row tt_state =
  sorting :: "(string \<times> bool) list"
  columnVisibility :: "string \<rightharpoonup> bool"
  columnFilters :: "(string \<times> string) list"
  rowAction :: "'row pending_action option"

datatype 'row tt_call = OnClick "'row \<Rightarrow> outcome" "'row"

text \<open>
  The initial value of the \<open>columnVisibility\<close> slot:
  \<^verbatim>\<open>excludeColumns ? Object.fromEntries(excludeColumns?.map((item) => [item, false])) : {}\<close>
\<close>

definition initialColumnVisibility :: "string list option \<Rightarrow> (string \<rightharpoonup> bool)" where
  "initialColumnVisibility excludeColumns =
     (case excludeColumns of
        Some xs \<Rightarrow> fromEntries (map (\<lambda>item. (item, False)) xs)
      | None \<Rightarrow> Map.empty)"

definition tt_initialState :: "string list option \<Rightarrow> 'row tt_state" where
  "tt_initialState excludeColumns =
     \<lparr>sorting = [], columnVisibility = initialColumnVisibility excludeColumns,
      columnFilters = [], rowAction = None\<rparr>"

text \<open>
  \<open>tableColumns\<close>: a copy of the declared columns, with the actions column pushed
  at the end when the \<open>actions\<close> prop is given.
\<close>

definition tableColumns :: "'r column_def list \<Rightarrow> bool \<Rightarrow> 'r column_def list" where
  "tableColumns columns hasActions =
     (if hasActions then columns @ [\<lparr>column_id = ''actions'', cell = CellWithActions\<rparr>]
      else columns)"

text \<open>
  Modelled from the spec: the row-model library decides which columns the header row
  shows, and it is not part of the repository. The spec's data model gives its rule:
  the visibility state maps column ids to booleans and an absent entry counts as
  visible. \<open>headerRow\<close> lists the ids of the columns that get a header cell (the
  library may reorder them by pinning, which does not change which ids appear).
\<close>

definition getIsVisible :: "(string \<rightharpoonup> bool) \<Rightarrow> string \<Rightarrow> bool" where
  "getIsVisible vis cid = (case vis cid of None \<Rightarrow> True | Some b \<Rightarrow> b)"

definition headerRow :: "(string \<rightharpoonup> bool) \<Rightarrow> 'r column_def list \<Rightarrow> string list" where
  "headerRow vis cols = filter (getIsVisible vis) (map column_id cols)"

text \<open>The state setter of the pending-action slot: it stores, and does nothing else.\<close>

definition setRowAction ::
  "'row pending_action option \<Rightarrow> 'row tt_state \<Rightarrow> 'row tt_state" where
  "setRowAction v s = s\<lparr>rowAction := v\<rparr>"

text \<open>
  The body of the effect keyed on \<open>rowAction\<close>:
  \<^verbatim>\<open>if (rowAction?.type === 'link') { rowAction.onClick(rowAction.row); setRowAction(null); }\<close>
  The two statements run in sequence with no \<open>try\<close> around them: when \<open>onClick\<close>
  throws, the effect is left at once and the setter call is not reached. The result is
  the state the effect leaves, the calls it made, and the error that escapes it.
\<close>

definition linkEffect ::
  "'row tt_state \<Rightarrow> 'row tt_state \<times> 'row tt_call list \<times> error option" where
  "linkEffect s =
     (case rowAction s of
        None \<Rightarrow> (s, [], None)
      | Some ra \<Rightarrow>
          (case action ra of
             Link onClick \<Rightarrow>
               (case onClick (row ra) of
                  Returns \<Rightarrow> (setRowAction None s, [OnClick onClick (row ra)], None)
                | Throws \<Rightarrow> (s, [OnClick onClick (row ra)], Some CallbackThrew))
           | ConfirmationDialog _ _ \<Rightarrow> (s, [], None)
           | CustomDialog _ _ \<Rightarrow> (s, [], None)))"

text \<open>
  The reaction to a change of \<open>rowAction\<close>. React runs the effect after the render
  that follows the change; when the effect itself changes \<open>rowAction\<close>, another render
  follows and the effect runs again, until a run leaves \<open>rowAction\<close> as it found it or
  an error escapes. The first argument bounds the number of runs; \<open>None\<close> means the
  bound was reached.
\<close>

fun tt_reaction ::
  "nat \<Rightarrow> 'row tt_state \<Rightarrow> ('row tt_state \<times> 'row tt_call list \<times> error option) option" where
  "tt_reaction 0 s = None"
| "tt_reaction (Suc n) s =
     (case linkEffect s of
        (s', cs, Some e) \<Rightarrow> Some (s', cs, Some e)
      | (s', cs, None) \<Rightarrow>
          if rowAction s' = rowAction s then Some (s', cs, None)
          else map_option (\<lambda>(s'', cs', e). (s'', cs @ cs', e)) (tt_reaction n s'))"

text \<open>
  The table body: one row per row of the row model, or, when the row model has no
  rows, one cell spanning \<open>columns.length\<close> (the declared columns, not
  \<open>tableColumns\<close>) with the text \<open>No data results\<close>.
\<close>

definition TanstackTable_body :: "'r column_def list \<Rightarrow> 'c rm_row list \<Rightarrow> 'c body_row list" where
  "TanstackTable_body columns rows =
     (if length rows \<noteq> 0
      then map (\<lambda>r. TableRow (isSelected r) (visibleCells r)) rows
      else [NoResultsRow (length columns) ''No data results''])"

section \<open>DataTable: the variant with generated columns\<close>

type_synonym 'v row_obj = "string \<rightharpoonup> 'v"

text \<open>
  A filter descriptor \<open>{name, value, type}\<close>; the type tag is a string literal of the
  source. An entry of the filter payload is the raw string or the list of its segments.
\<close>

record column_filter =
  cf_name :: string
  cf_value :: string
  cf_type :: string

datatype filter_entry = RawValue string | SplitValues "string list"

text \<open>
  The props the modelled code reads. An optional callback is a flag saying whether the
  caller supplied it; its invocations are logged as calls.
\<close>

record 'v dt_props =
  data :: "'v row_obj list"
  isLoading :: bool
  hasFetchRequest :: bool
  hasRenderSubComponent :: bool
  hasOnDataUpdate :: bool
  detailedFilter :: "column_filter list option"

text \<open>
  The state slots the modelled code reads or writes, and the page index held by the
  table instance.
\<close>

record 'v dt_state =
  tableData :: "'v row_obj list"
  isOpen :: bool
  rowSelection :: "string \<rightharpoonup> bool"
  filteredColumns :: "column_filter list"
  pageIndex :: nat

datatype 'v dt_call =
    OnDataUpdate "'v row_obj list"
  | FetchRequest nat "string \<rightharpoonup> filter_entry"

text \<open>A state change requested as a new value or as a function of the old one.\<close>

datatype 'a updater = NewValue 'a | UpdaterFn "'a \<Rightarrow> 'a"

text \<open>\<open>Array(6).fill({})\<close>: six empty rows.\<close>

definition placeholderRows :: "'v row_obj list" where
  "placeholderRows = replicate 6 Map.empty"

text \<open>
  The \<open>useState\<close> initialisers: \<open>data || []\<close>, \<open>false\<close>, \<open>{}\<close>, and the filters
  of \<open>detailedFilter\<close> whose value is truthy (a non-empty string).
\<close>

definition dt_initialState :: "'v dt_props \<Rightarrow> 'v dt_state" where
  "dt_initialState p =
     \<lparr>tableData = data p, isOpen = False, rowSelection = Map.empty,
      filteredColumns =
        (case detailedFilter p of
           Some fs \<Rightarrow> filter (\<lambda>i. cf_value i \<noteq> []) fs
         | None \<Rightarrow> []),
      pageIndex = 0\<rparr>"

text \<open>
  The columns handed to the table: while loading, each column with its cell renderer
  replaced, \<^verbatim>\<open>columns.map((column) => ({...column, cell: SkeletonCell}))\<close>.
\<close>

definition loadingColumns ::
  "bool \<Rightarrow> ('r, 'm) column_def_scheme list \<Rightarrow> ('r, 'm) column_def_scheme list" where
  "loadingColumns loading columns =
     (if loading then map (\<lambda>column. column\<lparr>cell := SkeletonCell\<rparr>) columns else columns)"

definition setTableData ::
  "('v row_obj list \<Rightarrow> 'v row_obj list) \<Rightarrow> 'v dt_state \<Rightarrow> 'v dt_state" where
  "setTableData f s = s\<lparr>tableData := f (tableData s)\<rparr>"

definition setRowSelection ::
  "(string \<rightharpoonup> bool) updater \<Rightarrow> 'v dt_state \<Rightarrow> 'v dt_state" where
  "setRowSelection u s =
     s\<lparr>rowSelection := (case u of NewValue v \<Rightarrow> v | UpdaterFn f \<Rightarrow> f (rowSelection s))\<rparr>"

text \<open>
  The handler given to the table as \<open>onRowSelectionChange\<close>:
  \<^verbatim>\<open>(row) => { if (isLoading) return; setRowSelection(row); }\<close>
\<close>

definition onRowSelectionChange ::
  "'v dt_props \<Rightarrow> (string \<rightharpoonup> bool) updater \<Rightarrow> 'v dt_state \<Rightarrow> 'v dt_state" where
  "onRowSelectionChange p u s = (if isLoading p then s else setRowSelection u s)"

text \<open>
  \<open>table.resetRowSelection()\<close> is a method of the row-model library. The component
  passes \<open>rowSelection\<close> to the table as controlled state, so the table holds no
  selection of its own: the method asks for the initial selection \<open>{}\<close> through the
  \<open>onRowSelectionChange\<close> handler the component gave it.
\<close>

definition resetRowSelection :: "'v dt_props \<Rightarrow> 'v dt_state \<Rightarrow> 'v dt_state" where
  "resetRowSelection p s = onRowSelectionChange p (NewValue Map.empty) s"

text \<open>
  \<^verbatim>\<open>removeRow: (rowIndex) => {
    setTableData((old) => old.filter((_row, index) => index !== rowIndex));
    table.resetRowSelection(); }\<close>
\<close>

definition removeRow :: "'v dt_props \<Rightarrow> nat \<Rightarrow> 'v dt_state \<Rightarrow> 'v dt_state" where
  "removeRow p rowIndex s =
     resetRowSelection p
       (setTableData
          (\<lambda>old. map snd (filter (\<lambda>(index, r). index \<noteq> rowIndex) (enumerate 0 old))) s)"

text \<open>
  \<^verbatim>\<open>updateData: (rowIndex, columnId, value) => {
    setTableData((old) => old.map((row, index) => {
      if (index === rowIndex) { return {...row, [columnId]: value}; }
      return row; })); }\<close>
\<close>

definition updateData :: "nat \<Rightarrow> string \<Rightarrow> 'v \<Rightarrow> 'v dt_state \<Rightarrow> 'v dt_state" where
  "updateData rowIndex columnId v s =
     setTableData
       (\<lambda>old. map (\<lambda>(index, r). if index = rowIndex then r(columnId \<mapsto> v) else r)
                 (enumerate 0 old)) s"

text \<open>
  \<open>value.split(',')\<close>: the segments between the commas, in order; a string with
  \<open>n\<close> commas has \<open>n + 1\<close> segments, some of them possibly empty.
\<close>

fun split_comma :: "string \<Rightarrow> string list" where
  "split_comma [] = [[]]"
| "split_comma (c # cs) =
     (if c = CHR '','' then [] # split_comma cs
      else (case split_comma cs of
              [] \<Rightarrow> [[c]]
            | seg # segs \<Rightarrow> (c # seg) # segs))"

text \<open>
  The assignment \<open>obj[key] = v\<close> on an object created by \<open>{}\<close>, read as its effect
  on the object's own properties (the ones that serialisation and \<open>Object.keys\<close> see).
  It creates or overwrites the own property \<open>key\<close>, with one exception: \<open>__proto__\<close>
  is an accessor property inherited from \<open>Object.prototype\<close>, so assigning to it runs
  the inherited setter and creates no own property.
\<close>

definition assignProperty :: "(string \<rightharpoonup> 'v) \<Rightarrow> string \<Rightarrow> 'v \<Rightarrow> (string \<rightharpoonup> 'v)" where
  "assignProperty obj key v = (if key = ''__proto__'' then obj else obj(key \<mapsto> v))"

text \<open>
  The payload built by the filter effect: starting from \<open>{}\<close>, each committed filter
  in turn assigns \<open>filter[column.name]\<close>;
  \<open>column.value.split(',').filter((i) => i)\<close> keeps the non-empty segments.
\<close>

definition filterPayload :: "column_filter list \<Rightarrow> (string \<rightharpoonup> filter_entry)" where
  "filterPayload cols =
     fold (\<lambda>column flt.
             if cf_type column = ''select-multiple'' \<or> cf_type column = ''select-async''
             then assignProperty flt (cf_name column)
                    (SplitValues (filter (\<lambda>i. i \<noteq> []) (split_comma (cf_value column))))
             else assignProperty flt (cf_name column) (RawValue (cf_value column)))
          cols Map.empty"

text \<open>
  One commit of the component. The three effects are, in the order of the source:
  \<^enum> keyed on \<open>[isLoading, data]\<close>:
    \<^verbatim>\<open>if (isLoading) setTableData(Array(6).fill({})) else setTableData(data)\<close>;
  \<^enum> keyed on \<open>[tableData, onDataUpdate]\<close>:
    \<^verbatim>\<open>onDataUpdate?.(tableData); setIsOpen(false)\<close>;
  \<^enum> keyed on \<open>[pageIndex, filteredColumns]\<close>:
    \<^verbatim>\<open>fetchRequest?.(table.getState().pagination.pageIndex, filter)\<close>.

  The flags \<open>e1\<close>, \<open>e2\<close>, \<open>e3\<close> say which effects run in this commit (all three
  after the first render, afterwards those with a changed key). Every effect reads the
  state \<open>s\<close> of the render it belongs to; the state changes it asks for take effect
  together, in the next render.
\<close>

definition commitEffects ::
  "'v dt_props \<Rightarrow> bool \<Rightarrow> bool \<Rightarrow> bool \<Rightarrow> 'v dt_state \<Rightarrow> 'v dt_state \<times> 'v dt_call list" where
  "commitEffects p e1 e2 e3 s =
     (let s1 = (if e1
                then setTableData (\<lambda>_. if isLoading p then placeholderRows else data p) s
                else s);
          s2 = (if e2 then s1\<lparr>isOpen := False\<rparr> else s1);
          c2 = (if e2 \<and> hasOnDataUpdate p then [OnDataUpdate (tableData s)] else []);
          c3 = (if e3 \<and> hasFetchRequest p
                then [FetchRequest (pageIndex s) (filterPayload (filteredColumns s))]
                else [])
      in (s2, c2 @ c3))"

text \<open>
  The data and columns options given to \<open>useReactTable\<close> in a render:
  \<open>data: tableData\<close> and \<open>columns\<close>, the latter after the loading replacement.
\<close>

definition tableInput ::
  "'v dt_props \<Rightarrow> 'v dt_state \<Rightarrow> ('r, 'm) column_def_scheme list
     \<Rightarrow> 'v row_obj list \<times> ('r, 'm) column_def_scheme list" where
  "tableInput p s columns = (tableData s, loadingColumns (isLoading p) columns)"

subsection \<open>Identity of arrays and functions, and the store of row arrays\<close>

text \<open>
  React decides with \<open>Object.is\<close> whether a state slot or an effect key changed: for
  an array or a function that is identity, not content. Array and function objects are
  therefore named by numbers. What the parent passes in one render is the props
  together with the names of the array passed as \<open>data\<close> and of the function passed as
  \<open>onDataUpdate\<close> (read only when that callback is supplied).
\<close>

record 'v dt_env =
  props :: "'v dt_props"
  dataRef :: nat
  onDataUpdateRef :: nat

text \<open>
  The mounted component: the values of its state slots, the names of the arrays held
  by the \<open>tableData\<close> and \<open>filteredColumns\<close> slots, the store of row arrays (the
  content of every row array allocated so far, the caller's included), and the next
  unused name of a row array. \<open>tableData (slots i)\<close> is the content of the array
  \<open>tableDataRef i\<close>. Filter arrays are numbered apart from row arrays.
\<close>

record 'v dt_inst =
  slots :: "'v dt_state"
  tableDataRef :: nat
  filteredColumnsRef :: nat
  heap :: "nat \<rightharpoonup> 'v row_obj list"
  nextRef :: nat

text \<open>The values of the three dependency arrays in a render.\<close>

record dt_keys =
  k_isLoading :: bool
  k_data :: nat
  k_tableData :: nat
  k_onDataUpdate :: "nat option"
  k_pageIndex :: nat
  k_filteredColumns :: nat

definition keysOf :: "'v dt_env \<Rightarrow> 'v dt_inst \<Rightarrow> dt_keys" where
  "keysOf env i =
     \<lparr>k_isLoading = isLoading (props env), k_data = dataRef env,
      k_tableData = tableDataRef i,
      k_onDataUpdate = (if hasOnDataUpdate (props env) then Some (onDataUpdateRef env) else None),
      k_pageIndex = pageIndex (slots i), k_filteredColumns = filteredColumnsRef i\<rparr>"

text \<open>
  A new row array with the given content becomes the array of the \<open>tableData\<close> slot:
  it is allocated under the next unused name; no array that exists is written.
  \<open>Array(6).fill({})\<close>, \<open>old.filter(...)\<close> and \<open>old.map(...)\<close> each build such a
  new array.
\<close>

definition allocRows :: "'v row_obj list \<Rightarrow> 'v dt_inst \<Rightarrow> 'v dt_inst" where
  "allocRows rows i =
     i\<lparr>tableDataRef := nextRef i, heap := (heap i)(nextRef i \<mapsto> rows),
       nextRef := Suc (nextRef i)\<rparr>"

text \<open>
  The component before its first commit: the \<open>tableData\<close> slot holds the caller's
  array itself (\<open>useState(data || [])\<close>), the \<open>filteredColumns\<close> slot an array of the
  component's own, and the store holds the caller's array; the names above it are
  unused.
\<close>

definition dt_initialInst :: "'v dt_env \<Rightarrow> 'v dt_inst" where
  "dt_initialInst env =
     \<lparr>slots = dt_initialState (props env), tableDataRef = dataRef env,
      filteredColumnsRef = 0, heap = [dataRef env \<mapsto> data (props env)],
      nextRef = Suc (dataRef env)\<rparr>"

text \<open>
  One commit of the mounted component. An effect runs after the first render
  (\<open>prev = None\<close>) and after every render in which one of its keys is not identical to
  its value in the previous render (\<open>prev = Some k0\<close>). The slot values are changed as
  \<open>commitEffects\<close> says; the first effect makes the \<open>tableData\<close> slot hold a new array
  while loading and the caller's array otherwise.
\<close>

definition commit ::
  "'v dt_env \<Rightarrow> dt_keys option \<Rightarrow> 'v dt_inst \<Rightarrow> 'v dt_inst \<times> 'v dt_call list" where
  "commit env prev i =
     (let p = props env;
          k = keysOf env i;
          e1 = (case prev of None \<Rightarrow> True
                | Some k0 \<Rightarrow> k_isLoading k0 \<noteq> k_isLoading k \<or> k_data k0 \<noteq> k_data k);
          e2 = (case prev of None \<Rightarrow> True
                | Some k0 \<Rightarrow> k_tableData k0 \<noteq> k_tableData k
                             \<or> k_onDataUpdate k0 \<noteq> k_onDataUpdate k);
          e3 = (case prev of None \<Rightarrow> True
                | Some k0 \<Rightarrow> k_pageIndex k0 \<noteq> k_pageIndex k
                             \<or> k_filteredColumns k0 \<noteq> k_filteredColumns k);
          i1 = (if e1
                then (if isLoading p then allocRows placeholderRows i
                      else i\<lparr>tableDataRef := dataRef env\<rparr>)
                else i);
          r = commitEffects p e1 e2 e3 (slots i)
      in (i1\<lparr>slots := fst r\<rparr>, snd r))"

text \<open>
  Renders and commits until the state is stable. The effects only call
  \<open>setTableData\<close> and \<open>setIsOpen\<close>; React renders again when the array given to the
  first is not the one the slot holds, or the boolean given to the second is not the
  slot's value. The first argument bounds the number of commits; \<open>None\<close> means the
  bound was reached.
\<close>

fun settle ::
  "nat \<Rightarrow> 'v dt_env \<Rightarrow> dt_keys option \<Rightarrow> 'v dt_inst \<Rightarrow> ('v dt_inst \<times> 'v dt_call list) option" where
  "settle 0 env prev i = None"
| "settle (Suc n) env prev i =
     (case commit env prev i of
        (i', cs) \<Rightarrow>
          if tableDataRef i' = tableDataRef i \<and> isOpen (slots i') = isOpen (slots i)
          then Some (i', cs)
          else map_option (\<lambda>(i'', cs'). (i'', cs @ cs'))
                 (settle n env (Some (keysOf env i)) i'))"

text \<open>Mounting: the first render has the initial state and runs all three effects.\<close>

definition mount :: "nat \<Rightarrow> 'v dt_env \<Rightarrow> ('v dt_inst \<times> 'v dt_call list) option" where
  "mount n env = settle n env None (dt_initialInst env)"


definition receiveProps ::
  "nat \<Rightarrow> 'v dt_env \<Rightarrow> 'v dt_env \<Rightarrow> 'v dt_inst \<Rightarrow> ('v dt_inst \<times> 'v dt_call list) option" where
  "receiveProps n env env' i = settle n env' (Some (keysOf env i)) i"







text \<open>
  The table body: per row of the row model a data row, followed by a sub-component row
  when the row is expanded and \<open>renderSubComponent\<close> is given; or, when the row model
  has no rows, one cell spanning \<open>columns.length + 1\<close> with the text \<open>No results.\<close>
\<close>

definition DataTable_body ::
  "'v dt_props \<Rightarrow> ('r, 'm) column_def_scheme list \<Rightarrow> 'c rm_row list \<Rightarrow> 'c body_row list" where
  "DataTable_body p columns rows =
     (if length rows \<noteq> 0
      then concat (map (\<lambda>r. TableRow (isSelected r) (visibleCells r) #
                          (if isExpanded r \<and> hasRenderSubComponent p
                           then [SubComponentRow (length (visibleCells r))] else [])) rows)
      else [NoResultsRow (length columns + 1) ''No results.''])"

section \<open>Properties of TanstackTable\<close>

subsection \<open>Initial column visibility\<close>

lemma fold_exclude_entries:
  "fold (\<lambda>(k, v) obj. obj(k \<mapsto> v)) (map (\<lambda>item. (item, False)) xs) m k =
     (if k \<in> set xs then Some False else m k)"
  by (induction xs arbitrary: m) auto

lemma fromEntries_exclude:
  "fromEntries (map (\<lambda>item. (item, False)) xs) k = (if k \<in> set xs then Some False else None)"
  by (simp add: fromEntries_def fold_exclude_entries)

text \<open>
  Claim C9. The initial column visibility state maps exactly each column id named in
  \<open>excludeColumns\<close> to false and has no other entry (and is empty when the prop is
  absent), so every column not named there counts as visible, and a named column gets
  no header cell: the header row shows the ids of the columns minus the excluded ones.
\<close>

theorem initial_visibility_from_excludeColumns:
  "columnVisibility (tt_initialState (Some ex) :: 'row tt_state) k
     = (if k \<in> set ex then Some False else None)
   \<and> columnVisibility (tt_initialState None :: 'row tt_state) k = None
   \<and> (k \<notin> set ex \<longrightarrow>
        getIsVisible (columnVisibility (tt_initialState (Some ex) :: 'row tt_state)) k)
   \<and> (k \<in> set ex \<longrightarrow>
        k \<notin> set (headerRow (columnVisibility (tt_initialState (Some ex) :: 'row tt_state)) cols))
   \<and> set (headerRow (columnVisibility (tt_initialState (Some ex) :: 'row tt_state)) cols)
        = column_id ` set cols - set ex"
  by (auto simp: tt_initialState_def initialColumnVisibility_def fromEntries_exclude
      getIsVisible_def headerRow_def)

theorem initial_visibility_witness:
  "columnVisibility (tt_initialState (Some [''id'']) :: nat tt_state) = [''id'' \<mapsto> False]
   \<and> headerRow (columnVisibility (tt_initialState (Some [''id'']) :: nat tt_state))
        [\<lparr>column_id = ''id'', cell = Renderer (0::nat)\<rparr>,
         \<lparr>column_id = ''name'', cell = Renderer 1\<rparr>] = [''name'']
   \<and> ''id'' \<notin> set (headerRow (columnVisibility (tt_initialState (Some [''id'']) :: nat tt_state))
        [\<lparr>column_id = ''id'', cell = Renderer (0::nat)\<rparr>,
         \<lparr>column_id = ''name'', cell = Renderer 1\<rparr>])"
  using initial_visibility_from_excludeColumns [where 'row = nat, of "[''id'']" "''id''"
      "[\<lparr>column_id = ''id'', cell = Renderer (0::nat)\<rparr>,
        \<lparr>column_id = ''name'', cell = Renderer 1\<rparr>]"]
  by (simp add: tt_initialState_def initialColumnVisibility_def fromEntries_def
      getIsVisible_def headerRow_def)

subsection \<open>The pending row action\<close>




text \<open>
  Claim C3, as stated, fails: with an \<open>onClick\<close> that throws, the effect has called it
  and the slot still holds the action.
\<close>

theorem throwing_onClick_leaves_action_pending:
  "linkEffect (setRowAction (Some \<lparr>action = Link (\<lambda>r. Throws), row = (7::nat)\<rparr>)
       (tt_initialState None))
     = (setRowAction (Some \<lparr>action = Link (\<lambda>r. Throws), row = 7\<rparr>) (tt_initialState None),
        [OnClick (\<lambda>r. Throws) 7], Some CallbackThrew)
   \<and> rowAction (fst (linkEffect
        (setRowAction (Some \<lparr>action = Link (\<lambda>r. Throws), row = (7::nat)\<rparr>)
           (tt_initialState None)))) \<noteq> None"
  by (simp add: linkEffect_def setRowAction_def)

text \<open>
  Claim C3, amended. For a pending \<open>link\<close> action the effect invokes \<open>onClick\<close> with
  the row; when the call returns the slot is cleared; when it throws the error escapes
  the effect, the slot is left holding the action, and the reaction ends there.
\<close>

theorem link_effect_clears_only_when_onClick_returns:
  "(onClick r = Returns \<longrightarrow>
      linkEffect (setRowAction (Some \<lparr>action = Link onClick, row = r\<rparr>) s)
        = (setRowAction None s, [OnClick onClick r], None))
   \<and> (onClick r = Throws \<longrightarrow>
      linkEffect (setRowAction (Some \<lparr>action = Link onClick, row = r\<rparr>) s)
        = (setRowAction (Some \<lparr>action = Link onClick, row = r\<rparr>) s,
           [OnClick onClick r], Some CallbackThrew)
      \<and> tt_reaction (Suc n) (setRowAction (Some \<lparr>action = Link onClick, row = r\<rparr>) s)
        = Some (setRowAction (Some \<lparr>action = Link onClick, row = r\<rparr>) s,
           [OnClick onClick r], Some CallbackThrew))"
  by (simp add: linkEffect_def setRowAction_def)

theorem link_effect_clears_only_when_onClick_returns_witness:
  "rowAction (fst (linkEffect
      (setRowAction (Some \<lparr>action = Link (\<lambda>r. if r = 0 then Returns else Throws), row = (0::nat)\<rparr>)
         (tt_initialState None)))) = None
   \<and> rowAction (fst (linkEffect
      (setRowAction (Some \<lparr>action = Link (\<lambda>r. if r = 0 then Returns else Throws), row = (1::nat)\<rparr>)
         (tt_initialState None))))
     = Some \<lparr>action = Link (\<lambda>r. if r = 0 then Returns else Throws), row = 1\<rparr>"
  using link_effect_clears_only_when_onClick_returns
      [of "\<lambda>r. if r = 0 then Returns else Throws" "0::nat" "tt_initialState None" 0]
    link_effect_clears_only_when_onClick_returns
      [of "\<lambda>r. if r = 0 then Returns else Throws" "1::nat" "tt_initialState None" 0]
  by (simp add: setRowAction_def)

subsection \<open>The placeholder row\<close>

text \<open>
  Claim C1, as stated, fails for the variant with generated columns: with three
  declared columns, no sub-component renderer and no rows, its placeholder cell spans
  four columns, not three.
\<close>

theorem DataTable_no_results_spans_four_of_three:
  "DataTable_body
     \<lparr>data = ([] :: nat row_obj list), isLoading = False, hasFetchRequest = False,
      hasRenderSubComponent = False, hasOnDataUpdate = False, detailedFilter = None\<rparr>
     [\<lparr>column_id = ''id'', cell = Renderer (0::nat)\<rparr>,
      \<lparr>column_id = ''name'', cell = Renderer 1\<rparr>,
      \<lparr>column_id = ''role'', cell = Renderer 2\<rparr>] ([] :: nat rm_row list)
     = [NoResultsRow 4 ''No results.'']
   \<and> DataTable_body
     \<lparr>data = ([] :: nat row_obj list), isLoading = False, hasFetchRequest = False,
      hasRenderSubComponent = False, hasOnDataUpdate = False, detailedFilter = None\<rparr>
     [\<lparr>column_id = ''id'', cell = Renderer (0::nat)\<rparr>,
      \<lparr>column_id = ''name'', cell = Renderer 1\<rparr>,
      \<lparr>column_id = ''role'', cell = Renderer 2\<rparr>] ([] :: nat rm_row list)
     \<noteq> [NoResultsRow 3 ''No results.'']"
  by (simp add: DataTable_body_def)

text \<open>
  Claim C1, amended. When the row model has no rows, the body is exactly one
  placeholder row. In the simple variant it spans the declared column count (the
  actions column, when present, is not counted) and reads \<open>No data results\<close>. In the
  variant with generated columns it spans the column count plus one, whether or not a
  sub-component renderer is given, and reads \<open>No results.\<close>
\<close>

theorem no_results_row_spans:
  assumes "length rows = 0" and "length rows' = 0"
  shows "TanstackTable_body cols rows = [NoResultsRow (length cols) ''No data results'']
   \<and> length (tableColumns cols True) = length cols + 1
   \<and> DataTable_body p cols' rows' = [NoResultsRow (length cols' + 1) ''No results.'']"
  using assms by (simp add: TanstackTable_body_def DataTable_body_def tableColumns_def)

theorem no_results_row_spans_witness:
  "TanstackTable_body
     [\<lparr>column_id = ''id'', cell = Renderer (0::nat)\<rparr>,
      \<lparr>column_id = ''name'', cell = Renderer 1\<rparr>,
      \<lparr>column_id = ''role'', cell = Renderer 2\<rparr>] ([] :: nat rm_row list)
     = [NoResultsRow 3 ''No data results'']
   \<and> DataTable_body
     \<lparr>data = ([] :: nat row_obj list), isLoading = False, hasFetchRequest = False,
      hasRenderSubComponent = True, hasOnDataUpdate = False, detailedFilter = None\<rparr>
     [\<lparr>column_id = ''id'', cell = Renderer (0::nat)\<rparr>,
      \<lparr>column_id = ''name'', cell = Renderer 1\<rparr>,
      \<lparr>column_id = ''role'', cell = Renderer 2\<rparr>] ([] :: nat rm_row list)
     = [NoResultsRow 4 ''No results.'']"
  using no_results_row_spans
    [of "[] :: nat rm_row list" "[] :: nat rm_row list"
     "[\<lparr>column_id = ''id'', cell = Renderer (0::nat)\<rparr>,
      \<lparr>column_id = ''name'', cell = Renderer 1\<rparr>,
      \<lparr>column_id = ''role'', cell = Renderer 2\<rparr>]"
     "\<lparr>data = ([] :: nat row_obj list), isLoading = False, hasFetchRequest = False,
      hasRenderSubComponent = True, hasOnDataUpdate = False, detailedFilter = None\<rparr>"
     "[\<lparr>column_id = ''id'', cell = Renderer (0::nat)\<rparr>,
      \<lparr>column_id = ''name'', cell = Renderer 1\<rparr>,
      \<lparr>column_id = ''role'', cell = Renderer 2\<rparr>]"]
  by (simp add: eval_nat_numeral)

section \<open>Properties of DataTable\<close>

subsection \<open>Row removal and field update\<close>

lemma filter_index_above:
  "i < k \<Longrightarrow> map snd (filter (\<lambda>(index, r). index \<noteq> i) (enumerate k xs)) = xs"
  by (induction xs arbitrary: k) auto

lemma filter_index_removes:
  "k \<le> i \<Longrightarrow> map snd (filter (\<lambda>(index, r). index \<noteq> i) (enumerate k xs))
     = take (i - k) xs @ drop (Suc (i - k)) xs"
proof (induction xs arbitrary: k)
  case Nil
  then show ?case by simp
next
  case (Cons x xs)
  show ?case
  proof (cases "k = i")
    case True
    then show ?thesis by (simp add: filter_index_above)
  next
    case False
    with Cons.prems have lt: "Suc k \<le> i" by simp
    have "Suc (i - Suc k) = i - k" using lt by simp
    with Cons.IH [OF lt] False lt show ?thesis
      by (simp add: take_Cons' drop_Cons')
  qed
qed

lemma removeRow_tableData:
  "tableData (removeRow p i s) = take i (tableData s) @ drop (Suc i) (tableData s)"
  using filter_index_removes [of 0 i "tableData s"]
  by (simp add: removeRow_def resetRowSelection_def onRowSelectionChange_def
      setRowSelection_def setTableData_def)

lemma removeRow_rowSelection:
  "rowSelection (removeRow p i s) = (if isLoading p then rowSelection s else Map.empty)"
  by (simp add: removeRow_def resetRowSelection_def onRowSelectionChange_def
      setRowSelection_def setTableData_def)

text \<open>
  Claim C7, as stated, fails while a load is in flight: the snapshot then is the six
  placeholder rows, removing index 2 leaves five, and a selection made before the load
  began is still there, because the reset goes through the guarded selection handler.
\<close>

theorem removeRow_keeps_selection_while_loading:
  "length (tableData (removeRow
      \<lparr>data = [], isLoading = True, hasFetchRequest = False, hasRenderSubComponent = False,
       hasOnDataUpdate = False, detailedFilter = None\<rparr> 2
      \<lparr>tableData = (placeholderRows :: nat row_obj list), isOpen = False,
       rowSelection = [''2'' \<mapsto> True], filteredColumns = [], pageIndex = 0\<rparr>)) = 5
   \<and> rowSelection (removeRow
      \<lparr>data = [], isLoading = True, hasFetchRequest = False, hasRenderSubComponent = False,
       hasOnDataUpdate = False, detailedFilter = None\<rparr> 2
      \<lparr>tableData = (placeholderRows :: nat row_obj list), isOpen = False,
       rowSelection = [''2'' \<mapsto> True], filteredColumns = [], pageIndex = 0\<rparr>) ''2'' = Some True
   \<and> rowSelection (removeRow
      \<lparr>data = [], isLoading = True, hasFetchRequest = False, hasRenderSubComponent = False,
       hasOnDataUpdate = False, detailedFilter = None\<rparr> 2
      \<lparr>tableData = (placeholderRows :: nat row_obj list), isOpen = False,
       rowSelection = [''2'' \<mapsto> True], filteredColumns = [], pageIndex = 0\<rparr>) \<noteq> Map.empty"
  by (simp add: removeRow_tableData removeRow_rowSelection placeholderRows_def)

text \<open>
  Claim C7, amended. For every snapshot and index \<open>i\<close>, \<open>removeRow i\<close> yields the
  old snapshot without the row at index \<open>i\<close>, the other rows in their order (one row
  fewer when \<open>i\<close> is a valid index). The row selection is reset to empty when no load
  is in flight; while a load is in flight the reset is suppressed by the selection
  handler's guard and the selection is left as it was.
\<close>

theorem removeRow_removes_row_and_resets_selection_unless_loading:
  "tableData (removeRow p i s) = take i (tableData s) @ drop (Suc i) (tableData s)
   \<and> (i < length (tableData s) \<longrightarrow>
        length (tableData (removeRow p i s)) = length (tableData s) - 1)
   \<and> (\<not> isLoading p \<longrightarrow> rowSelection (removeRow p i s) = Map.empty)
   \<and> (isLoading p \<longrightarrow> rowSelection (removeRow p i s) = rowSelection s)"
  by (simp add: removeRow_tableData removeRow_rowSelection)

theorem removeRow_witness:
  "tableData (removeRow
      \<lparr>data = [], isLoading = False, hasFetchRequest = False, hasRenderSubComponent = False,
       hasOnDataUpdate = False, detailedFilter = None\<rparr> 2
      \<lparr>tableData = [[''id'' \<mapsto> (10::nat)], [''id'' \<mapsto> 11], [''id'' \<mapsto> 12],
                    [''id'' \<mapsto> 13], [''id'' \<mapsto> 14]], isOpen = False,
       rowSelection = [''2'' \<mapsto> True], filteredColumns = [], pageIndex = 0\<rparr>)
     = [[''id'' \<mapsto> 10], [''id'' \<mapsto> 11], [''id'' \<mapsto> 13], [''id'' \<mapsto> 14]]
   \<and> rowSelection (removeRow
      \<lparr>data = [], isLoading = False, hasFetchRequest = False, hasRenderSubComponent = False,
       hasOnDataUpdate = False, detailedFilter = None\<rparr> 2
      \<lparr>tableData = [[''id'' \<mapsto> (10::nat)], [''id'' \<mapsto> 11], [''id'' \<mapsto> 12],
                    [''id'' \<mapsto> 13], [''id'' \<mapsto> 14]], isOpen = False,
       rowSelection = [''2'' \<mapsto> True], filteredColumns = [], pageIndex = 0\<rparr>) = Map.empty"
  using removeRow_removes_row_and_resets_selection_unless_loading
    [of "\<lparr>data = [], isLoading = False, hasFetchRequest = False, hasRenderSubComponent = False,
       hasOnDataUpdate = False, detailedFilter = None\<rparr>" 2
      "\<lparr>tableData = [[''id'' \<mapsto> (10::nat)], [''id'' \<mapsto> 11], [''id'' \<mapsto> 12],
                    [''id'' \<mapsto> 13], [''id'' \<mapsto> 14]], isOpen = False,
       rowSelection = [''2'' \<mapsto> True], filteredColumns = [], pageIndex = 0\<rparr>"]
  by simp

lemma updateData_tableData_nth:
  assumes "j < length (tableData s)"
  shows "tableData (updateData i f v s) ! j
           = (if j = i then (tableData s ! j)(f \<mapsto> v) else tableData s ! j)"
  using assms by (simp add: updateData_def setTableData_def nth_enumerate_eq)

text \<open>
  Claim C10. For every snapshot, row index \<open>i\<close>, field id \<open>f\<close> and value \<open>v\<close>,
  \<open>updateData i f v\<close> yields a snapshot of the same length in which field \<open>f\<close> of
  the row at index \<open>i\<close> is \<open>v\<close> and every other field of every row is as before;
  the row selection, and every other state slot, is left unchanged.
\<close>

theorem updateData_changes_one_field:
  "length (tableData (updateData i f v s)) = length (tableData s)
   \<and> (\<forall>j < length (tableData s). \<forall>g.
         (tableData (updateData i f v s) ! j) g
           = (if j = i \<and> g = f then Some v else (tableData s ! j) g))
   \<and> rowSelection (updateData i f v s) = rowSelection s
   \<and> updateData i f v s = s\<lparr>tableData := tableData (updateData i f v s)\<rparr>"
proof -
  have len: "length (tableData (updateData i f v s)) = length (tableData s)"
    by (simp add: updateData_def setTableData_def)
  have frame: "updateData i f v s = s\<lparr>tableData := tableData (updateData i f v s)\<rparr>"
    by (simp add: updateData_def setTableData_def)
  have sel: "rowSelection (updateData i f v s) = rowSelection s"
    by (simp add: updateData_def setTableData_def)
  have nth: "\<forall>j < length (tableData s). \<forall>g.
         (tableData (updateData i f v s) ! j) g
           = (if j = i \<and> g = f then Some v else (tableData s ! j) g)"
    by (simp add: updateData_tableData_nth)
  from len nth sel frame show ?thesis by blast
qed

theorem updateData_witness:
  "(tableData (updateData 1 ''name'' (7::nat)
      \<lparr>tableData = [[''id'' \<mapsto> 10, ''name'' \<mapsto> 1], [''id'' \<mapsto> 11, ''name'' \<mapsto> 2]],
       isOpen = False, rowSelection = [''0'' \<mapsto> True], filteredColumns = [],
       pageIndex = 0\<rparr>) ! 1) ''name'' = Some 7
   \<and> (tableData (updateData 1 ''name'' (7::nat)
      \<lparr>tableData = [[''id'' \<mapsto> 10, ''name'' \<mapsto> 1], [''id'' \<mapsto> 11, ''name'' \<mapsto> 2]],
       isOpen = False, rowSelection = [''0'' \<mapsto> True], filteredColumns = [],
       pageIndex = 0\<rparr>) ! 1) ''id'' = Some 11
   \<and> (tableData (updateData 1 ''name'' (7::nat)
      \<lparr>tableData = [[''id'' \<mapsto> 10, ''name'' \<mapsto> 1], [''id'' \<mapsto> 11, ''name'' \<mapsto> 2]],
       isOpen = False, rowSelection = [''0'' \<mapsto> True], filteredColumns = [],
       pageIndex = 0\<rparr>) ! 0) ''name'' = Some 1
   \<and> rowSelection (updateData 1 ''name'' (7::nat)
      \<lparr>tableData = [[''id'' \<mapsto> 10, ''name'' \<mapsto> 1], [''id'' \<mapsto> 11, ''name'' \<mapsto> 2]],
       isOpen = False, rowSelection = [''0'' \<mapsto> True], filteredColumns = [],
       pageIndex = 0\<rparr>) = [''0'' \<mapsto> True]"
  using updateData_changes_one_field [of 1 "''name''" "7::nat"
      "\<lparr>tableData = [[''id'' \<mapsto> 10, ''name'' \<mapsto> 1], [''id'' \<mapsto> 11, ''name'' \<mapsto> 2]],
       isOpen = False, rowSelection = [''0'' \<mapsto> True], filteredColumns = [],
       pageIndex = 0\<rparr>"]
  by (simp add: numeral_2_eq_2 less_Suc_eq all_conj_distrib imp_conjR disj_imp)

subsection \<open>The selection handler\<close>

text \<open>
  Claim C8. While a load is in flight the row-selection handler is a no-op: the state
  after the call is the state before it, and the call ends normally (the handler is a
  total function returning a state). When no load is in flight it applies the requested
  selection, given as a new value or as a function of the old one.
\<close>

theorem selection_setter_suppressed_while_loading:
  "(isLoading p \<longrightarrow> onRowSelectionChange p u s = s)
   \<and> (\<not> isLoading p \<longrightarrow>
        onRowSelectionChange p u s
          = s\<lparr>rowSelection := (case u of NewValue v \<Rightarrow> v | UpdaterFn f \<Rightarrow> f (rowSelection s))\<rparr>)"
  by (simp add: onRowSelectionChange_def setRowSelection_def)

theorem selection_setter_witness:
  "rowSelection (onRowSelectionChange
      \<lparr>data = [], isLoading = True, hasFetchRequest = False, hasRenderSubComponent = False,
       hasOnDataUpdate = False, detailedFilter = None\<rparr>
      (NewValue [''1'' \<mapsto> True])
      \<lparr>tableData = (placeholderRows :: nat row_obj list), isOpen = False,
       rowSelection = [''0'' \<mapsto> True], filteredColumns = [], pageIndex = 0\<rparr>)
     = [''0'' \<mapsto> True]
   \<and> rowSelection (onRowSelectionChange
      \<lparr>data = [], isLoading = False, hasFetchRequest = False, hasRenderSubComponent = False,
       hasOnDataUpdate = False, detailedFilter = None\<rparr>
      (NewValue [''1'' \<mapsto> True])
      \<lparr>tableData = ([] :: nat row_obj list), isOpen = False,
       rowSelection = [''0'' \<mapsto> True], filteredColumns = [], pageIndex = 0\<rparr>)
     = [''1'' \<mapsto> True]"
  using selection_setter_suppressed_while_loading
      [of "\<lparr>data = [], isLoading = True, hasFetchRequest = False, hasRenderSubComponent = False,
         hasOnDataUpdate = False, detailedFilter = None\<rparr>"
        "NewValue [''1'' \<mapsto> True]"
        "\<lparr>tableData = (placeholderRows :: nat row_obj list), isOpen = False,
         rowSelection = [''0'' \<mapsto> True], filteredColumns = [], pageIndex = 0\<rparr>"]
    selection_setter_suppressed_while_loading
      [of "\<lparr>data = [], isLoading = False, hasFetchRequest = False, hasRenderSubComponent = False,
         hasOnDataUpdate = False, detailedFilter = None\<rparr>"
        "NewValue [''1'' \<mapsto> True]"
        "\<lparr>tableData = ([] :: nat row_obj list), isOpen = False,
         rowSelection = [''0'' \<mapsto> True], filteredColumns = [], pageIndex = 0\<rparr>"]
  by simp

subsection \<open>Commits of the mounted component\<close>

lemma mount_result:
  "mount (Suc (Suc n)) env =
     Some ((if isLoading (props env)
            then (allocRows placeholderRows (dt_initialInst env))
                   \<lparr>slots := (dt_initialState (props env))\<lparr>tableData := placeholderRows\<rparr>\<rparr>
            else dt_initialInst env),
           (if hasOnDataUpdate (props env) then [OnDataUpdate (data (props env))] else []) @
           (if hasFetchRequest (props env)
            then [FetchRequest 0 (filterPayload (filteredColumns (dt_initialState (props env))))]
            else []) @
           (if isLoading (props env) \<and> hasOnDataUpdate (props env)
            then [OnDataUpdate placeholderRows] else []))"
  by (simp add: mount_def commit_def commitEffects_def keysOf_def allocRows_def
      setTableData_def dt_initialInst_def dt_initialState_def Let_def)

lemma receiveProps_snapshot:
  assumes "isLoading (props env') \<noteq> isLoading (props env) \<or> dataRef env' \<noteq> dataRef env"
    and "tableDataRef i < nextRef i"
  shows "map_option (\<lambda>(i', cs). tableData (slots i'))
           (receiveProps (Suc (Suc (Suc n))) env env' i)
         = Some (if isLoading (props env') then placeholderRows else data (props env'))"
  using assms
  by (auto simp: receiveProps_def commit_def commitEffects_def keysOf_def allocRows_def
      setTableData_def Let_def)




lemma commit_heap:
  "r < nextRef i \<Longrightarrow> heap (fst (commit env prev i)) r = heap i r"
  by (auto simp: commit_def allocRows_def Let_def)

lemma commit_nextRef: "nextRef i \<le> nextRef (fst (commit env prev i))"
  by (auto simp: commit_def allocRows_def Let_def)

lemma settle_heap:
  "settle n env prev i = Some (i', cs) \<Longrightarrow> r < nextRef i \<Longrightarrow> heap i' r = heap i r"
proof (induction n arbitrary: prev i i' cs)
  case 0
  then show ?case by simp
next
  case (Suc n)
  obtain i1 cs1 where c: "commit env prev i = (i1, cs1)" by (cases "commit env prev i")
  have h1: "heap i1 r = heap i r" and n1: "nextRef i \<le> nextRef i1"
    using commit_heap [of r i env prev] commit_nextRef [of i env prev] Suc.prems(2) c by simp_all
  show ?case
  proof (cases "tableDataRef i1 = tableDataRef i \<and> isOpen (slots i1) = isOpen (slots i)")
    case True
    with Suc.prems c h1 show ?thesis by simp
  next
    case False
    with Suc.prems(1) c obtain i2 cs2 where
      s2: "settle n env (Some (keysOf env i)) i1 = Some (i2, cs2)" and "i' = i2"
      by (auto split: if_splits)
    from Suc.IH [OF s2] n1 Suc.prems(2) have "heap i2 r = heap i1 r" by simp
    with h1 \<open>i' = i2\<close> show ?thesis by simp
  qed
qed

subsection \<open>The data snapshot and onDataUpdate\<close>




subsection \<open>The loading projection\<close>

text \<open>
  Claim C5, as stated, fails: in the first render of a table that mounts while loading,
  the data given to the table is the caller's row, not six placeholder rows (the
  columns are the skeleton columns already).
\<close>

theorem first_render_while_loading_gets_callers_rows:
  "tableInput
     \<lparr>data = [[''id'' \<mapsto> (1::nat)]], isLoading = True, hasFetchRequest = False,
      hasRenderSubComponent = False, hasOnDataUpdate = False, detailedFilter = None\<rparr>
     (slots (dt_initialInst
        \<lparr>props = \<lparr>data = [[''id'' \<mapsto> (1::nat)]], isLoading = True, hasFetchRequest = False,
                  hasRenderSubComponent = False, hasOnDataUpdate = False,
                  detailedFilter = None\<rparr>,
         dataRef = 0, onDataUpdateRef = 0\<rparr>))
     [\<lparr>column_id = ''id'', cell = Renderer (0::nat)\<rparr>]
   = ([[''id'' \<mapsto> 1]], [\<lparr>column_id = ''id'', cell = SkeletonCell\<rparr>])
   \<and> fst (tableInput
     \<lparr>data = [[''id'' \<mapsto> (1::nat)]], isLoading = True, hasFetchRequest = False,
      hasRenderSubComponent = False, hasOnDataUpdate = False, detailedFilter = None\<rparr>
     (slots (dt_initialInst
        \<lparr>props = \<lparr>data = [[''id'' \<mapsto> (1::nat)]], isLoading = True, hasFetchRequest = False,
                  hasRenderSubComponent = False, hasOnDataUpdate = False,
                  detailedFilter = None\<rparr>,
         dataRef = 0, onDataUpdateRef = 0\<rparr>))
     [\<lparr>column_id = ''id'', cell = Renderer (0::nat)\<rparr>]) \<noteq> placeholderRows"
  by (simp add: tableInput_def dt_initialInst_def dt_initialState_def loadingColumns_def
      placeholderRows_def numeral_eq_Suc)

text \<open>
  Claim C5, amended. In every render the data given to the table is the current
  snapshot, and the columns are the caller's columns with every cell renderer replaced
  by the skeleton renderer (their other properties kept) when \<open>isLoading\<close> is true,
  and the caller's columns unchanged when it is false. The snapshot of the first render
  is the caller's data, whatever \<open>isLoading\<close> is. The loading effect, which runs
  after the first render and after every render in which \<open>isLoading\<close> or the
  \<open>data\<close> array changed, then makes the snapshot the sequence of exactly six empty
  rows when \<open>isLoading\<close> is true, whatever the real data and the previous snapshot
  are, and the caller's data when it is false. No array that exists is written by
  these reactions: in particular the caller's data array has the content it had.
\<close>

theorem loading_projection_by_render:
  "tableInput p s cols
     = (tableData s, if isLoading p then map (\<lambda>c. c\<lparr>cell := SkeletonCell\<rparr>) cols else cols)
   \<and> (isLoading p \<longrightarrow>
        (\<forall>c \<in> set (snd (tableInput p s cols)). cell c = SkeletonCell)
        \<and> map column_id (snd (tableInput p s cols)) = map column_id cols
        \<and> map column_def.more (snd (tableInput p s cols)) = map column_def.more cols)
   \<and> tableData (slots (dt_initialInst env)) = data (props env)
   \<and> map_option (\<lambda>(i', cs). tableData (slots i')) (mount (Suc (Suc n)) env)
        = Some (if isLoading (props env) then replicate 6 Map.empty else data (props env))
   \<and> map_option (\<lambda>(i', cs). heap i' (dataRef env)) (mount (Suc (Suc n)) env)
        = Some (Some (data (props env)))
   \<and> ((isLoading (props env') \<noteq> isLoading (props env) \<or> dataRef env' \<noteq> dataRef env)
        \<and> tableDataRef i < nextRef i \<longrightarrow>
        map_option (\<lambda>(i', cs). tableData (slots i'))
            (receiveProps (Suc (Suc (Suc n))) env env' i)
          = Some (if isLoading (props env') then replicate 6 Map.empty else data (props env')))
   \<and> (\<forall>m i' cs. receiveProps m env env' i = Some (i', cs) \<longrightarrow>
         (\<forall>r < nextRef i. heap i' r = heap i r))"
proof -
  have t: "tableInput p s cols
     = (tableData s, if isLoading p then map (\<lambda>c. c\<lparr>cell := SkeletonCell\<rparr>) cols else cols)"
    by (simp add: tableInput_def loadingColumns_def)
  have c: "isLoading p \<longrightarrow>
        (\<forall>c \<in> set (snd (tableInput p s cols)). cell c = SkeletonCell)
        \<and> map column_id (snd (tableInput p s cols)) = map column_id cols
        \<and> map column_def.more (snd (tableInput p s cols)) = map column_def.more cols"
    by (auto simp: tableInput_def loadingColumns_def)
  have f: "tableData (slots (dt_initialInst env)) = data (props env)"
    by (simp add: dt_initialInst_def dt_initialState_def)
  have m: "map_option (\<lambda>(i', cs). tableData (slots i')) (mount (Suc (Suc n)) env)
        = Some (if isLoading (props env) then replicate 6 Map.empty else data (props env))"
    by (simp add: mount_result placeholderRows_def dt_initialInst_def dt_initialState_def)
  have h: "map_option (\<lambda>(i', cs). heap i' (dataRef env)) (mount (Suc (Suc n)) env)
        = Some (Some (data (props env)))"
    by (simp add: mount_result allocRows_def dt_initialInst_def)
  have r: "(isLoading (props env') \<noteq> isLoading (props env) \<or> dataRef env' \<noteq> dataRef env)
        \<and> tableDataRef i < nextRef i \<longrightarrow>
        map_option (\<lambda>(i', cs). tableData (slots i'))
            (receiveProps (Suc (Suc (Suc n))) env env' i)
          = Some (if isLoading (props env') then replicate 6 Map.empty else data (props env'))"
    using receiveProps_snapshot [of env' env i n] by (auto simp: placeholderRows_def)
  have fr: "\<forall>m i' cs. receiveProps m env env' i = Some (i', cs) \<longrightarrow>
         (\<forall>r < nextRef i. heap i' r = heap i r)"
    unfolding receiveProps_def using settle_heap by blast
  from t c f m h r fr show ?thesis by blast
qed

theorem loading_projection_by_render_witness:
  "map_option (\<lambda>(i', cs). tableData (slots i')) (mount 2
     \<lparr>props = \<lparr>data = [[''id'' \<mapsto> (1::nat)]], isLoading = True, hasFetchRequest = False,
               hasRenderSubComponent = False, hasOnDataUpdate = False, detailedFilter = None\<rparr>,
      dataRef = 0, onDataUpdateRef = 0\<rparr>)
     = Some [Map.empty, Map.empty, Map.empty, Map.empty, Map.empty, Map.empty]
   \<and> map_option (\<lambda>(i', cs). heap i' 0) (mount 2
     \<lparr>props = \<lparr>data = [[''id'' \<mapsto> (1::nat)]], isLoading = True, hasFetchRequest = False,
               hasRenderSubComponent = False, hasOnDataUpdate = False, detailedFilter = None\<rparr>,
      dataRef = 0, onDataUpdateRef = 0\<rparr>)
     = Some (Some [[''id'' \<mapsto> 1]])
   \<and> snd (tableInput
       \<lparr>data = [[''id'' \<mapsto> (1::nat)]], isLoading = True, hasFetchRequest = False,
        hasRenderSubComponent = False, hasOnDataUpdate = False, detailedFilter = None\<rparr>
       \<lparr>tableData = [[''id'' \<mapsto> 1]], isOpen = False, rowSelection = Map.empty,
        filteredColumns = [], pageIndex = 0\<rparr>
       [\<lparr>column_id = ''id'', cell = Renderer (0::nat)\<rparr>,
        \<lparr>column_id = ''name'', cell = Renderer 1\<rparr>])
     = [\<lparr>column_id = ''id'', cell = SkeletonCell\<rparr>,
        \<lparr>column_id = ''name'', cell = SkeletonCell\<rparr>]
   \<and> map_option (\<lambda>(i', cs). tableData (slots i')) (receiveProps 3
     \<lparr>props = \<lparr>data = [[''id'' \<mapsto> (1::nat)]], isLoading = True, hasFetchRequest = False,
               hasRenderSubComponent = False, hasOnDataUpdate = False, detailedFilter = None\<rparr>,
      dataRef = 0, onDataUpdateRef = 0\<rparr>
     \<lparr>props = \<lparr>data = [[''id'' \<mapsto> (2::nat)]], isLoading = False, hasFetchRequest = False,
               hasRenderSubComponent = False, hasOnDataUpdate = False, detailedFilter = None\<rparr>,
      dataRef = 2, onDataUpdateRef = 0\<rparr>
     \<lparr>slots = \<lparr>tableData = replicate 6 Map.empty, isOpen = False, rowSelection = Map.empty,
               filteredColumns = [], pageIndex = 0\<rparr>,
      tableDataRef = 1, filteredColumnsRef = 0,
      heap = [0 \<mapsto> [[''id'' \<mapsto> 1]], 1 \<mapsto> replicate 6 Map.empty, 2 \<mapsto> [[''id'' \<mapsto> 2]]],
      nextRef = 3\<rparr>)
     = Some [[''id'' \<mapsto> 2]]"
  using loading_projection_by_render
    [where n = 0
       and p = "\<lparr>data = [[''id'' \<mapsto> (1::nat)]], isLoading = True, hasFetchRequest = False,
                 hasRenderSubComponent = False, hasOnDataUpdate = False,
                 detailedFilter = None\<rparr>"
       and s = "\<lparr>tableData = [[''id'' \<mapsto> (1::nat)]], isOpen = False, rowSelection = Map.empty,
                 filteredColumns = [], pageIndex = 0\<rparr>"
       and cols = "[\<lparr>column_id = ''id'', cell = Renderer (0::nat)\<rparr>,
                    \<lparr>column_id = ''name'', cell = Renderer 1\<rparr>]"
       and env = "\<lparr>props = \<lparr>data = [[''id'' \<mapsto> (1::nat)]], isLoading = True,
               hasFetchRequest = False, hasRenderSubComponent = False, hasOnDataUpdate = False,
               detailedFilter = None\<rparr>, dataRef = 0, onDataUpdateRef = 0\<rparr>"
       and env' = "\<lparr>props = \<lparr>data = [[''id'' \<mapsto> (2::nat)]], isLoading = False,
               hasFetchRequest = False, hasRenderSubComponent = False, hasOnDataUpdate = False,
               detailedFilter = None\<rparr>, dataRef = 2, onDataUpdateRef = 0\<rparr>"
       and i = "\<lparr>slots = \<lparr>tableData = replicate 6 Map.empty, isOpen = False,
               rowSelection = Map.empty, filteredColumns = [], pageIndex = 0\<rparr>,
               tableDataRef = 1, filteredColumnsRef = 0,
               heap = [0 \<mapsto> [[''id'' \<mapsto> (1::nat)]], 1 \<mapsto> replicate 6 Map.empty,
                       2 \<mapsto> [[''id'' \<mapsto> 2]]],
               nextRef = 3\<rparr>"]
  by (simp add: numeral_2_eq_2 numeral_3_eq_3) (simp add: numeral_eq_Suc)

subsection \<open>The filter payload\<close>













end
